theory Spec2Isabelle
  imports Main "HOL-Library.Multiset"
begin

section \<open>Support tickets: the data-access functions and the two write handlers\<close>

text \<open>
  The program (\<^verbatim>\<open>streamlit_app.py\<close>) keeps one SQLite table \<^verbatim>\<open>tickets\<close> and drives it
  from a Streamlit script. The model below follows the script function by function.
  The table is passed explicitly; every data-access function returns its result
  together with the table it leaves behind.
\<close>

subsection \<open>Text\<close>

text \<open>
  A Python \<^verbatim>\<open>str\<close> and an SQLite \<^verbatim>\<open>TEXT\<close> value are sequences of Unicode code
  points; both \<^verbatim>\<open>str.strip\<close> and \<^verbatim>\<open>SUBSTR\<close> count code points. A text is therefore a
  list of code points (natural numbers); \<open>lit\<close> writes an ASCII literal.
\<close>

type_synonym pystr = "nat list"

abbreviation lit :: "string \<Rightarrow> pystr" where
  "lit s \<equiv> map of_char s"

text \<open>
  \<^verbatim>\<open>str.isspace\<close> for one code point (CPython's \<^verbatim>\<open>_PyUnicode_IsWhitespace\<close>):
  U+0009..U+000D, U+001C..U+0020, U+0085, U+00A0, U+1680, U+2000..U+200A, U+2028,
  U+2029, U+202F, U+205F, U+3000.
\<close>

definition py_isspace :: "nat \<Rightarrow> bool" where
  "py_isspace c =
     ((9 \<le> c \<and> c \<le> 13) \<or> (28 \<le> c \<and> c \<le> 32) \<or> c = 133 \<or> c = 160 \<or> c = 5760 \<or>
      (8192 \<le> c \<and> c \<le> 8202) \<or> c = 8232 \<or> c = 8233 \<or> c = 8239 \<or> c = 8287 \<or>
      c = 12288)"

text \<open>\<^verbatim>\<open>issue.strip()\<close>: leading and trailing whitespace removed.\<close>

definition strip :: "pystr \<Rightarrow> pystr" where
  "strip s = rev (dropWhile py_isspace (rev (dropWhile py_isspace s)))"

text \<open>
  \<^verbatim>\<open>f"{ticket_number}"\<close>: the decimal digits of a Python integer, most significant
  first, with a minus sign for a negative one.
\<close>

fun digits_of :: "nat \<Rightarrow> pystr" where
  "digits_of n = (if n < 10 then [48 + n] else digits_of (n div 10) @ [48 + n mod 10])"

declare digits_of.simps [simp del]

definition py_str :: "int \<Rightarrow> pystr" where
  "py_str i = (if i < 0 then 45 # digits_of (nat (- i)) else digits_of (nat i))"

subsection \<open>The storage engine's integer cast\<close>

text \<open>
  \<^verbatim>\<open>CAST(text AS INTEGER)\<close> in SQLite: leading white space (tab, line feed, vertical
  tab, form feed, carriage return, space) is skipped, then an optional sign and the
  longest run of decimal digits are read; with no digits the value is 0. SQLite's
  INTEGER is a signed 64-bit value: a longer number becomes 9223372036854775807, or
  -9223372036854775808 when negative.
\<close>

definition sqlite_isspace :: "nat \<Rightarrow> bool" where
  "sqlite_isspace c = ((9 \<le> c \<and> c \<le> 13) \<or> c = 32)"

definition is_digit :: "nat \<Rightarrow> bool" where
  "is_digit c = (48 \<le> c \<and> c \<le> 57)"

fun digits_value :: "nat \<Rightarrow> pystr \<Rightarrow> nat" where
  "digits_value acc [] = acc"
| "digits_value acc (c # cs) =
     (if is_digit c then digits_value (acc * 10 + (c - 48)) cs else acc)"

definition INT64_MAX :: int where
  "INT64_MAX = 9223372036854775807"

definition INT64_MIN :: int where
  "INT64_MIN = - 9223372036854775808"

definition cast_integer :: "pystr \<Rightarrow> int" where
  "cast_integer s =
     (case dropWhile sqlite_isspace s of
        [] \<Rightarrow> 0
      | c # cs \<Rightarrow>
          if c = 45 then max INT64_MIN (- int (digits_value 0 cs))
          else if c = 43 then min INT64_MAX (int (digits_value 0 cs))
          else min INT64_MAX (int (digits_value 0 (c # cs))))"

text \<open>\<^verbatim>\<open>SUBSTR(id, 8)\<close>: the text from its eighth character on.\<close>

definition substr8 :: "pystr \<Rightarrow> pystr" where
  "substr8 s = drop 7 s"

subsection \<open>The table\<close>

text \<open>
  One row of \<^verbatim>\<open>tickets\<close>. \<open>created_at\<close> is the engine's \<^verbatim>\<open>CURRENT_TIMESTAMP\<close> at the
  insert, a text \<^verbatim>\<open>YYYY-MM-DD HH:MM:SS\<close> whose order is the order of the instants; it
  is kept as the number of seconds. The table is the list of its rows in the order of
  their insertion.
\<close>

record ticket =
  id_col :: pystr
  issue :: pystr
  status :: pystr
  priority :: pystr
  date_submitted :: pystr
  created_at :: nat

type_synonym database = "ticket list"

text \<open>
  The dictionary \<^verbatim>\<open>ticket_data\<close> of the submit handler, and one row of the data frame
  that \<^verbatim>\<open>load_tickets_from_db\<close> returns: the same five keys.
\<close>

record ticket_data =
  ID :: pystr
  Issue :: pystr
  Status :: pystr
  Priority :: pystr
  Date_Submitted :: pystr

type_synonym dataframe = "ticket_data list"

text \<open>
  What a call can raise: \<^verbatim>\<open>sqlite3.IntegrityError\<close> (the primary key),
  \<^verbatim>\<open>sqlite3.OperationalError\<close> (the engine itself: a locked or unreadable file, a full
  disk) and \<^verbatim>\<open>IndexError\<close> (\<^verbatim>\<open>iloc\<close> out of bounds). Whether the engine fails is
  not decided by the program: each data-access function takes the error the engine
  raises for its statement, if any, as its first argument. A statement that raises
  writes nothing.
\<close>

datatype py_exception = IntegrityError | OperationalError | IndexError

type_synonym 'a result = "(py_exception + 'a) \<times> database"

subsection \<open>Data-access functions\<close>

text \<open>\<^verbatim>\<open>save_ticket_to_db\<close>: one \<^verbatim>\<open>INSERT\<close>; \<^verbatim>\<open>id\<close> is the primary key.\<close>

definition save_ticket_to_db ::
  "py_exception option \<Rightarrow> nat \<Rightarrow> ticket_data \<Rightarrow> database \<Rightarrow> unit result" where
  "save_ticket_to_db fault now td db =
     (case fault of
        Some e \<Rightarrow> (Inl e, db)
      | None \<Rightarrow>
          if ID td \<in> set (map id_col db) then (Inl IntegrityError, db)
          else (Inr (),
                db @ [\<lparr>id_col = ID td, issue = Issue td, status = Status td,
                        priority = Priority td, date_submitted = Date_Submitted td,
                        created_at = now\<rparr>]))"

text \<open>
  \<^verbatim>\<open>load_tickets_from_db\<close>: the five selected columns of every row,
  \<^verbatim>\<open>ORDER BY created_at DESC\<close>. Rows of one and the same second are returned in the
  order of their insertion (the engine promises no order among them).
\<close>

definition select_columns :: "ticket \<Rightarrow> ticket_data" where
  "select_columns r =
     \<lparr>ID = id_col r, Issue = issue r, Status = status r, Priority = priority r,
      Date_Submitted = date_submitted r\<rparr>"

definition order_by_created_at_desc :: "database \<Rightarrow> database" where
  "order_by_created_at_desc db = sort_key (\<lambda>r. - int (created_at r)) db"

definition load_tickets_from_db :: "py_exception option \<Rightarrow> database \<Rightarrow> dataframe result" where
  "load_tickets_from_db fault db =
     (case fault of
        Some e \<Rightarrow> (Inl e, db)
      | None \<Rightarrow> (Inr (map select_columns (order_by_created_at_desc db)), db))"

text \<open>\<^verbatim>\<open>update_ticket_in_db\<close>: one \<^verbatim>\<open>UPDATE ... WHERE id = ?\<close>.\<close>

definition update_ticket_in_db ::
  "py_exception option \<Rightarrow> pystr \<Rightarrow> pystr \<Rightarrow> pystr \<Rightarrow> database \<Rightarrow> unit result" where
  "update_ticket_in_db fault ticket_id status' priority' db =
     (case fault of
        Some e \<Rightarrow> (Inl e, db)
      | None \<Rightarrow>
          (Inr (),
           map (\<lambda>r. if id_col r = ticket_id then r\<lparr>status := status', priority := priority'\<rparr>
                     else r) db))"

text \<open>
  \<^verbatim>\<open>get_next_ticket_number\<close>: \<^verbatim>\<open>SELECT MAX(CAST(SUBSTR(id, 8) AS INTEGER))\<close>; the
  aggregate is \<^verbatim>\<open>NULL\<close> (Python's \<^verbatim>\<open>None\<close>) on a table without rows. The addition is
  Python's, on unbounded integers.
\<close>

definition ticket_suffix :: "ticket \<Rightarrow> int" where
  "ticket_suffix r = cast_integer (substr8 (id_col r))"

fun sql_max :: "int list \<Rightarrow> int option" where
  "sql_max [] = None"
| "sql_max (x # xs) = Some (fold max xs x)"

definition get_next_ticket_number :: "py_exception option \<Rightarrow> database \<Rightarrow> int result" where
  "get_next_ticket_number fault db =
     (case fault of
        Some e \<Rightarrow> (Inl e, db)
      | None \<Rightarrow>
          (case sql_max (map ticket_suffix db) of
             None \<Rightarrow> (Inr 1001, db)
           | Some result \<Rightarrow> (Inr (result + 1), db)))"

subsection \<open>What the script shows and what it calls\<close>

text \<open>
  The messages of the two handlers, by the call that shows them:
  \<^verbatim>\<open>st.error\<close> of the empty issue, \<^verbatim>\<open>st.success\<close> and \<^verbatim>\<open>st.dataframe\<close> of a saved
  ticket, \<^verbatim>\<open>st.error\<close> of a failed save, \<^verbatim>\<open>st.success\<close> and \<^verbatim>\<open>st.error\<close> of the
  reconciliation.
\<close>

datatype ui_event =
    Error_describe_issue
  | Success_ticket_saved
  | Show_dataframe dataframe
  | Error_saving py_exception
  | Success_changes_saved
  | Error_updating py_exception

text \<open>The data-access calls a handler makes, in the order it makes them.\<close>

datatype db_call =
    Call_get_next_ticket_number
  | Call_save_ticket_to_db ticket_data
  | Call_load_tickets_from_db
  | Call_update_ticket_in_db pystr pystr pystr

text \<open>
  How a handler ends: the script goes on, \<^verbatim>\<open>st.rerun()\<close> restarts it, or an exception
  leaves the script uncaught.
\<close>

datatype control = Continue | Rerun | Uncaught py_exception

record outcome =
  out_ui :: "ui_event list"
  out_calls :: "db_call list"
  out_df :: dataframe
  out_db :: database
  out_ctl :: control

subsection \<open>The submit handler\<close>

text \<open>
  The body of \<^verbatim>\<open>if submitted:\<close>. \<open>today\<close> is
  \<^verbatim>\<open>datetime.datetime.now().strftime("%Y-%m-%d")\<close>, \<open>now\<close> the engine's clock at the
  insert, \<open>df\<close> the snapshot \<^verbatim>\<open>st.session_state.df\<close>. The query for the next number
  stands before the \<^verbatim>\<open>try\<close>; the insert and the reload stand inside it.
\<close>

definition submit_handler ::
  "py_exception option \<Rightarrow> py_exception option \<Rightarrow> py_exception option \<Rightarrow>
   pystr \<Rightarrow> nat \<Rightarrow> pystr \<Rightarrow> pystr \<Rightarrow> dataframe \<Rightarrow> database \<Rightarrow> outcome" where
  "submit_handler fault_next fault_save fault_load today now issue' priority' df db =
     (if strip issue' = [] then
        \<lparr>out_ui = [Error_describe_issue], out_calls = [], out_df = df, out_db = db,
         out_ctl = Continue\<rparr>
      else
        (case get_next_ticket_number fault_next db of
           (Inl e, db1) \<Rightarrow>
             \<lparr>out_ui = [], out_calls = [Call_get_next_ticket_number], out_df = df,
              out_db = db1, out_ctl = Uncaught e\<rparr>
         | (Inr ticket_number, db1) \<Rightarrow>
             (let td = \<lparr>ID = lit ''TICKET-'' @ py_str ticket_number, Issue = issue',
                        Status = lit ''Open'', Priority = priority',
                        Date_Submitted = today\<rparr>
              in case save_ticket_to_db fault_save now td db1 of
                   (Inl e, db2) \<Rightarrow>
                     \<lparr>out_ui = [Error_saving e],
                      out_calls = [Call_get_next_ticket_number, Call_save_ticket_to_db td],
                      out_df = df, out_db = db2, out_ctl = Continue\<rparr>
                 | (Inr u, db2) \<Rightarrow>
                     (case load_tickets_from_db fault_load db2 of
                        (Inl e, db3) \<Rightarrow>
                          \<lparr>out_ui = [Success_ticket_saved, Show_dataframe [td], Error_saving e],
                           out_calls = [Call_get_next_ticket_number, Call_save_ticket_to_db td,
                                        Call_load_tickets_from_db],
                           out_df = df, out_db = db3, out_ctl = Continue\<rparr>
                      | (Inr df', db3) \<Rightarrow>
                          \<lparr>out_ui = [Success_ticket_saved, Show_dataframe [td]],
                           out_calls = [Call_get_next_ticket_number, Call_save_ticket_to_db td,
                                        Call_load_tickets_from_db],
                           out_df = df', out_db = db3, out_ctl = Rerun\<rparr>))))"

subsection \<open>The reconciliation of the edited table\<close>

text \<open>
  The loop \<^verbatim>\<open>for idx, row in edited_df.iterrows()\<close>: \<open>idx\<close> is the position of the
  row, \<^verbatim>\<open>st.session_state.df.iloc[idx]\<close> raises \<^verbatim>\<open>IndexError\<close> past the end of the
  snapshot, and the first call that raises ends the loop. \<open>fault idx\<close> is the error
  the engine raises for the update of row \<open>idx\<close>, if any. The result carries the calls
  made.
\<close>

fun update_changed_rows ::
  "(nat \<Rightarrow> py_exception option) \<Rightarrow> nat \<Rightarrow> dataframe \<Rightarrow> dataframe \<Rightarrow> database \<Rightarrow>
   (py_exception + unit) \<times> db_call list \<times> database" where
  "update_changed_rows fault idx [] df db = (Inr (), [], db)"
| "update_changed_rows fault idx (row # rest) df db =
     (if length df \<le> idx then (Inl IndexError, [], db)
      else
        (let original_row = df ! idx in
         if Status row \<noteq> Status original_row \<or> Priority row \<noteq> Priority original_row then
           (case update_ticket_in_db (fault idx) (ID row) (Status row) (Priority row) db of
              (Inl e, db') \<Rightarrow>
                (Inl e, [Call_update_ticket_in_db (ID row) (Status row) (Priority row)], db')
            | (Inr u, db') \<Rightarrow>
                (case update_changed_rows fault (Suc idx) rest df db' of
                   (r, calls, db'') \<Rightarrow>
                     (r, Call_update_ticket_in_db (ID row) (Status row) (Priority row) # calls,
                      db'')))
         else update_changed_rows fault (Suc idx) rest df db))"

text \<open>
  The block under \<^verbatim>\<open>if len(st.session_state.df) > 0:\<close> up to the statistics:
  \<open>edited_df\<close> is what \<^verbatim>\<open>st.data_editor\<close> returned for the snapshot \<open>df\<close>.
\<close>

definition reconcile ::
  "(nat \<Rightarrow> py_exception option) \<Rightarrow> dataframe \<Rightarrow> dataframe \<Rightarrow> database \<Rightarrow> outcome" where
  "reconcile fault edited_df df db =
     (if 0 < length df \<and> edited_df \<noteq> df then
        (case update_changed_rows fault 0 edited_df df db of
           (Inr u, calls, db') \<Rightarrow>
             \<lparr>out_ui = [Success_changes_saved], out_calls = calls, out_df = edited_df,
              out_db = db', out_ctl = Continue\<rparr>
         | (Inl e, calls, db') \<Rightarrow>
             \<lparr>out_ui = [Error_updating e], out_calls = calls, out_df = df, out_db = db',
              out_ctl = Continue\<rparr>)
      else
        \<lparr>out_ui = [], out_calls = [], out_df = df, out_db = db, out_ctl = Continue\<rparr>)"

text \<open>
  Two ways the engine can behave during a reconciliation: it carries out every update,
  or it raises \<open>e\<close> for the update of row \<open>k\<close> and carries out every other.
\<close>

definition no_fault :: "nat \<Rightarrow> py_exception option" where
  "no_fault = (\<lambda>i. None)"

definition fault_at :: "nat \<Rightarrow> py_exception \<Rightarrow> nat \<Rightarrow> py_exception option" where
  "fault_at k e = (\<lambda>i. if i = k then Some e else None)"

subsection \<open>Replaying calls\<close>

text \<open>
  The table after the \<^verbatim>\<open>update_ticket_in_db\<close> calls of a list have been carried out,
  one after the other; used to say which table a handler leaves behind.
\<close>

fun db_after_calls :: "db_call list \<Rightarrow> database \<Rightarrow> database" where
  "db_after_calls [] db = db"
| "db_after_calls (Call_update_ticket_in_db t s p # cs) db =
     db_after_calls cs (snd (update_ticket_in_db None t s p db))"
| "db_after_calls (c # cs) db = db_after_calls cs db"

subsection \<open>The calls the reconciliation is to make\<close>

text \<open>
  In the words of the design: the edited snapshot is compared with the last-loaded one
  row by row, matched by position, and every row whose status or priority changed gets
  one Update Ticket call with its id, status and priority.
\<close>

definition spec_update_calls :: "dataframe \<Rightarrow> dataframe \<Rightarrow> db_call list" where
  "spec_update_calls edited_df df =
     map (\<lambda>(row, original_row). Call_update_ticket_in_db (ID row) (Status row) (Priority row))
       (filter (\<lambda>(row, original_row).
                  Status row \<noteq> Status original_row \<or> Priority row \<noteq> Priority original_row)
          (zip edited_df df))"

subsection \<open>Example rows\<close>

definition example_1001 :: ticket where
  "example_1001 =
     \<lparr>id_col = lit ''TICKET-1001'', issue = lit ''printer broken'', status = lit ''Open'',
      priority = lit ''Medium'', date_submitted = lit ''2024-05-01'', created_at = 100\<rparr>"

definition example_1002 :: ticket where
  "example_1002 =
     \<lparr>id_col = lit ''TICKET-1002'', issue = lit ''no network'', status = lit ''Open'',
      priority = lit ''Low'', date_submitted = lit ''2024-05-02'', created_at = 200\<rparr>"

definition example_max :: ticket where
  "example_max =
     \<lparr>id_col = lit ''TICKET-9223372036854775807'', issue = lit ''last number'',
      status = lit ''Open'', priority = lit ''Low'', date_submitted = lit ''2024-05-02'',
      created_at = 200\<rparr>"

section \<open>Properties\<close>

subsection \<open>Text and numbers\<close>

lemma all_dropWhile_iff: "(\<forall>x\<in>set (dropWhile P xs). P x) \<longleftrightarrow> (\<forall>x\<in>set xs. P x)"
  by (induction xs) auto

lemma strip_empty_iff: "strip s = [] \<longleftrightarrow> (\<forall>c\<in>set s. py_isspace c)"
  by (simp add: strip_def all_dropWhile_iff)

lemma digits_value_append:
  "\<forall>c\<in>set xs. is_digit c \<Longrightarrow>
   digits_value acc (xs @ ys) = digits_value (digits_value acc xs) ys"
  by (induction xs arbitrary: acc) simp_all

lemma digits_of_digits: "c \<in> set (digits_of n) \<Longrightarrow> is_digit c"
proof (induction n arbitrary: c rule: digits_of.induct)
  case (1 n)
  show ?case
  proof (cases "n < 10")
    case True
    with "1.prems" show ?thesis
      by (simp add: digits_of.simps [of n] is_digit_def)
  next
    case False
    have "n mod 10 < 10" by simp
    then have "is_digit (48 + n mod 10)"
      unfolding is_digit_def by linarith
    with False "1.prems" "1.IH" show ?thesis
      by (auto simp: digits_of.simps [of n])
  qed
qed

lemma digits_of_not_Nil: "digits_of n \<noteq> []"
  by (simp add: digits_of.simps [of n])

lemma digits_value_digits_of: "digits_value 0 (digits_of n) = n"
proof (induction n rule: digits_of.induct)
  case (1 n)
  show ?case
  proof (cases "n < 10")
    case True
    then show ?thesis
      by (simp add: digits_of.simps [of n] is_digit_def)
  next
    case False
    have d: "is_digit (48 + n mod 10)"
      unfolding is_digit_def using mod_less_divisor [of 10 n] by linarith
    have "digits_value 0 (digits_of n) =
          digits_value (digits_value 0 (digits_of (n div 10))) [48 + n mod 10]"
      using False by (simp add: digits_of.simps [of n] digits_value_append digits_of_digits)
    also have "\<dots> = n div 10 * 10 + n mod 10"
      using False "1.IH" d by simp
    finally show ?thesis by simp
  qed
qed

lemma cast_integer_digits: "cast_integer (digits_of n) = min INT64_MAX (int n)"
proof (cases "digits_of n")
  case Nil
  then show ?thesis by (simp add: digits_of_not_Nil)
next
  case (Cons c cs)
  then have "is_digit c"
    using digits_of_digits [of c n] by simp
  then have c: "\<not> sqlite_isspace c" "c \<noteq> 45" "c \<noteq> 43"
    by (auto simp: is_digit_def sqlite_isspace_def)
  have "digits_value 0 (c # cs) = n"
    using digits_value_digits_of [of n] Cons by simp
  with c show ?thesis
    unfolding cast_integer_def Cons by (simp del: digits_value.simps)
qed

lemma cast_integer_py_str:
  "cast_integer (py_str i) = max INT64_MIN (min INT64_MAX i)"
proof (cases "i < 0")
  case True
  have "\<not> sqlite_isspace 45" by (simp add: sqlite_isspace_def)
  then have "cast_integer (py_str i) = max INT64_MIN (- int (digits_value 0 (digits_of (nat (- i)))))"
    using True by (simp add: cast_integer_def py_str_def)
  with True show ?thesis
    by (simp add: digits_value_digits_of INT64_MAX_def INT64_MIN_def)
next
  case False
  then show ?thesis
    by (simp add: py_str_def cast_integer_digits INT64_MAX_def INT64_MIN_def)
qed

lemma cast_integer_range: "INT64_MIN \<le> cast_integer s \<and> cast_integer s \<le> INT64_MAX"
  by (simp add: cast_integer_def INT64_MIN_def INT64_MAX_def split: list.split)

lemma substr8_ticket: "substr8 (lit ''TICKET-'' @ s) = s"
  by (simp add: substr8_def)

subsection \<open>The statements of the engine\<close>

lemma sql_max_eq: "sql_max xs = (if xs = [] then None else Some (Max (set xs)))"
proof (cases xs)
  case Nil
  then show ?thesis by simp
next
  case (Cons y ys)
  have "fold max ys y = Max (set (y # ys))"
    by (rule Max.set_eq_fold [symmetric])
  with Cons show ?thesis by simp
qed

lemma update_absent:
  "t \<notin> set (map id_col db) \<Longrightarrow> update_ticket_in_db None t s p db = (Inr (), db)"
  by (induction db) (auto simp: update_ticket_in_db_def)

lemma update_ids: "map id_col (snd (update_ticket_in_db fault t s p db)) = map id_col db"
  by (cases fault) (simp_all add: update_ticket_in_db_def)

lemma map_update_distinct:
  assumes "distinct (map f xs)" and "i < length xs"
  shows "map (\<lambda>r. if f r = f (xs ! i) then g r else r) xs = xs[i := g (xs ! i)]"
proof (rule nth_equalityI)
  show "length (map (\<lambda>r. if f r = f (xs ! i) then g r else r) xs) = length (xs[i := g (xs ! i)])"
    by simp
next
  fix j assume "j < length (map (\<lambda>r. if f r = f (xs ! i) then g r else r) xs)"
  then have j: "j < length xs" by simp
  have "f (xs ! j) = f (xs ! i) \<longleftrightarrow> j = i"
    using assms j by (metis distinct_conv_nth length_map nth_map)
  with j assms(2) show "map (\<lambda>r. if f r = f (xs ! i) then g r else r) xs ! j = xs[i := g (xs ! i)] ! j"
    by (auto simp: nth_list_update)
qed

lemma order_sorted: "sorted_wrt (\<lambda>a b. created_at b \<le> created_at a) (order_by_created_at_desc db)"
proof -
  have "sorted (map (\<lambda>r. - int (created_at r)) (order_by_created_at_desc db))"
    unfolding order_by_created_at_desc_def by (rule sorted_sort_key)
  then show ?thesis
    by (simp add: sorted_map sorted_wrt_iff_nth_less)
qed

lemma order_mset: "mset (order_by_created_at_desc db) = mset db"
  by (simp add: order_by_created_at_desc_def)


lemma get_next_ticket_number_None:
  "get_next_ticket_number None db =
     (Inr (if db = [] then 1001 else Max (ticket_suffix ` set db) + 1), db)"
  by (simp add: get_next_ticket_number_def sql_max_eq)

lemma ticket_suffix_new:
  "ticket_suffix \<lparr>id_col = lit ''TICKET-'' @ py_str n, issue = i, status = s, priority = p,
                  date_submitted = d, created_at = t\<rparr> = max INT64_MIN (min INT64_MAX n)"
  unfolding ticket_suffix_def by (simp only: ticket.simps substr8_ticket cast_integer_py_str)

lemma submit_handler_saved:
  assumes "strip issue' \<noteq> []"
    and "Success_ticket_saved \<in>
           set (out_ui (submit_handler fault_next fault_save fault_load today now issue' priority' df db))"
  shows "\<exists>n. get_next_ticket_number None db = (Inr n, db) \<and>
           out_db (submit_handler fault_next fault_save fault_load today now issue' priority' df db) =
             db @ [\<lparr>id_col = lit ''TICKET-'' @ py_str n, issue = issue', status = lit ''Open'',
                    priority = priority', date_submitted = today, created_at = now\<rparr>] \<and>
           Show_dataframe [\<lparr>ID = lit ''TICKET-'' @ py_str n, Issue = issue', Status = lit ''Open'',
                             Priority = priority', Date_Submitted = today\<rparr>]
             \<in> set (out_ui (submit_handler fault_next fault_save fault_load today now issue' priority' df db))"
proof -
  obtain n where n: "get_next_ticket_number None db = (Inr n, db)"
    by (simp add: get_next_ticket_number_None)
  have fn: "fault_next = None"
    using assms by (cases fault_next) (simp_all add: submit_handler_def get_next_ticket_number_def)
  have fs: "fault_save = None"
    using assms n fn
    by (cases fault_save) (simp_all add: submit_handler_def save_ticket_to_db_def)
  have new: "lit ''TICKET-'' @ py_str n \<notin> set (map id_col db)"
    using assms n fn fs
    by (auto simp: submit_handler_def save_ticket_to_db_def split: if_splits)
  show ?thesis
    using assms(1) n fn fs new
    by (cases fault_load)
       (simp_all add: submit_handler_def save_ticket_to_db_def load_tickets_from_db_def Let_def)
qed

lemma submit_handler_fresh:
  assumes "strip issue' \<noteq> []"
    and "get_next_ticket_number None db = (Inr n, db)"
    and "lit ''TICKET-'' @ py_str n \<notin> set (map id_col db)"
  shows "submit_handler None None None today now issue' priority' df db =
           \<lparr>out_ui = [Success_ticket_saved,
                      Show_dataframe [\<lparr>ID = lit ''TICKET-'' @ py_str n, Issue = issue',
                                       Status = lit ''Open'', Priority = priority',
                                       Date_Submitted = today\<rparr>]],
            out_calls = [Call_get_next_ticket_number,
                         Call_save_ticket_to_db \<lparr>ID = lit ''TICKET-'' @ py_str n, Issue = issue',
                                                 Status = lit ''Open'', Priority = priority',
                                                 Date_Submitted = today\<rparr>,
                         Call_load_tickets_from_db],
            out_df = map select_columns (order_by_created_at_desc
                       (db @ [\<lparr>id_col = lit ''TICKET-'' @ py_str n, issue = issue',
                               status = lit ''Open'', priority = priority', date_submitted = today,
                               created_at = now\<rparr>])),
            out_db = db @ [\<lparr>id_col = lit ''TICKET-'' @ py_str n, issue = issue',
                            status = lit ''Open'', priority = priority', date_submitted = today,
                            created_at = now\<rparr>],
            out_ctl = Rerun\<rparr>"
  using assms
  by (simp add: submit_handler_def save_ticket_to_db_def load_tickets_from_db_def Let_def)

lemma next_number_fresh:
  assumes "\<forall>r\<in>set db. ticket_suffix r < INT64_MAX"
    and "get_next_ticket_number None db = (Inr n, db)"
  shows "max INT64_MIN (min INT64_MAX n) = n"
    and "\<forall>r\<in>set db. ticket_suffix r < n"
    and "lit ''TICKET-'' @ py_str n \<notin> set (map id_col db)"
proof -
  have n: "n = (if db = [] then 1001 else Max (ticket_suffix ` set db) + 1)"
    using assms(2) by (simp add: get_next_ticket_number_None)
  show below: "\<forall>r\<in>set db. ticket_suffix r < n"
  proof
    fix r assume r: "r \<in> set db"
    then have "ticket_suffix r \<le> Max (ticket_suffix ` set db)" by simp
    with r n show "ticket_suffix r < n" by auto
  qed
  show clamp: "max INT64_MIN (min INT64_MAX n) = n"
  proof (cases "db = []")
    case True
    with n show ?thesis by (simp add: INT64_MIN_def INT64_MAX_def)
  next
    case False
    then have "Max (ticket_suffix ` set db) \<in> ticket_suffix ` set db"
      by (intro Max_in) simp_all
    then obtain r where r: "r \<in> set db" "Max (ticket_suffix ` set db) = ticket_suffix r"
      by auto
    have "INT64_MIN \<le> ticket_suffix r"
      unfolding ticket_suffix_def using cast_integer_range by blast
    moreover have "ticket_suffix r < INT64_MAX"
      using assms(1) r(1) by blast
    ultimately show ?thesis
      using n False r(2) by simp
  qed
  show "lit ''TICKET-'' @ py_str n \<notin> set (map id_col db)"
  proof
    assume "lit ''TICKET-'' @ py_str n \<in> set (map id_col db)"
    then obtain r where r: "r \<in> set db" "id_col r = lit ''TICKET-'' @ py_str n"
      by auto
    have "ticket_suffix r = max INT64_MIN (min INT64_MAX n)"
      unfolding ticket_suffix_def r(2) by (simp only: substr8_ticket cast_integer_py_str)
    with clamp below r(1) show False by auto
  qed
qed

subsection \<open>The reconciliation loop\<close>

lemma spec_update_calls_Nil [simp]: "spec_update_calls [] df = []"
  by (simp add: spec_update_calls_def)

lemma spec_update_calls_Cons:
  "spec_update_calls (row # rest) (original_row # df) =
     (if Status row \<noteq> Status original_row \<or> Priority row \<noteq> Priority original_row
      then Call_update_ticket_in_db (ID row) (Status row) (Priority row) # spec_update_calls rest df
      else spec_update_calls rest df)"
  by (simp add: spec_update_calls_def)

lemma update_changed_rows_no_fault:
  assumes "idx + length edited_df \<le> length df"
  shows "update_changed_rows (\<lambda>i. None) idx edited_df df db =
           (Inr (), spec_update_calls edited_df (drop idx df),
            db_after_calls (spec_update_calls edited_df (drop idx df)) db)"
  using assms
proof (induction edited_df arbitrary: idx db)
  case Nil
  then show ?case by simp
next
  case (Cons row rest)
  then have idx: "idx < length df" and rest: "Suc idx + length rest \<le> length df"
    by simp_all
  have d: "drop idx df = df ! idx # drop (Suc idx) df"
    using idx by (simp add: Cons_nth_drop_Suc)
  show ?case
    using idx Cons.IH [OF rest]
    by (simp add: d spec_update_calls_Cons update_ticket_in_db_def Let_def)
qed

lemma update_changed_rows_fault:
  assumes "idx + length edited_df \<le> length df"
    and "k < length edited_df"
    and "fault (idx + k) = Some e"
    and "Status (edited_df ! k) \<noteq> Status (df ! (idx + k)) \<or>
         Priority (edited_df ! k) \<noteq> Priority (df ! (idx + k))"
    and "\<forall>j<k. fault (idx + j) = None"
  shows "update_changed_rows fault idx edited_df df db =
           (Inl e, spec_update_calls (take (Suc k) edited_df) (drop idx df),
            db_after_calls (spec_update_calls (take k edited_df) (drop idx df)) db)"
  using assms
proof (induction edited_df arbitrary: idx k db)
  case Nil
  then show ?case by simp
next
  case (Cons row rest)
  then have idx: "idx < length df" and rest: "Suc idx + length rest \<le> length df"
    by simp_all
  have d: "drop idx df = df ! idx # drop (Suc idx) df"
    using idx by (simp add: Cons_nth_drop_Suc)
  show ?case
  proof (cases k)
    case 0
    with Cons.prems idx show ?thesis
      by (simp add: d spec_update_calls_Cons update_ticket_in_db_def Let_def)
  next
    case (Suc k')
    have f0: "fault idx = None"
      using Cons.prems(5) Suc by (metis add.right_neutral zero_less_Suc)
    have IH: "update_changed_rows fault (Suc idx) rest df db' =
           (Inl e, spec_update_calls (take (Suc k') rest) (drop (Suc idx) df),
            db_after_calls (spec_update_calls (take k' rest) (drop (Suc idx) df)) db')" for db'
    proof (rule Cons.IH [OF rest])
      show "k' < length rest" using Cons.prems(2) Suc by simp
      show "fault (Suc idx + k') = Some e" using Cons.prems(3) Suc by simp
      show "Status (rest ! k') \<noteq> Status (df ! (Suc idx + k')) \<or>
            Priority (rest ! k') \<noteq> Priority (df ! (Suc idx + k'))"
        using Cons.prems(4) Suc by simp
      show "\<forall>j<k'. fault (Suc idx + j) = None"
      proof (intro allI impI)
        fix j assume "j < k'"
        then have "Suc j < k" using Suc by simp
        with Cons.prems(5) have "fault (idx + Suc j) = None" by blast
        then show "fault (Suc idx + j) = None" by simp
      qed
    qed
    show ?thesis
      using idx f0 IH Suc
      by (simp add: d spec_update_calls_Cons update_ticket_in_db_def Let_def)
  qed
qed

lemma db_after_calls_absent:
  assumes "\<forall>row\<in>set edited_df. ID row \<notin> set (map id_col db)"
  shows "db_after_calls (spec_update_calls edited_df df) db = db"
  using assms
proof (induction edited_df arbitrary: df)
  case Nil
  then show ?case by simp
next
  case (Cons row rest)
  show ?case
  proof (cases df)
    case Nil
    then show ?thesis by (simp add: spec_update_calls_def)
  next
    case (Cons original_row df')
    have "update_ticket_in_db None (ID row) s p db = (Inr (), db)" for s p
      using Cons.prems by (intro update_absent) simp
    with Cons Cons.IH [of df'] Cons.prems show ?thesis
      by (simp add: spec_update_calls_Cons)
  qed
qed

lemma spec_update_calls_same: "spec_update_calls df df = []"
  by (induction df) (simp_all add: spec_update_calls_Cons)

lemma reconcile_no_fault:
  assumes "length edited_df = length df"
  shows "reconcile no_fault edited_df df db =
           \<lparr>out_ui = (if 0 < length df \<and> edited_df \<noteq> df then [Success_changes_saved] else []),
            out_calls = spec_update_calls edited_df df,
            out_df = edited_df,
            out_db = db_after_calls (spec_update_calls edited_df df) db,
            out_ctl = Continue\<rparr>"
proof (cases "0 < length df \<and> edited_df \<noteq> df")
  case True
  then show ?thesis
    using update_changed_rows_no_fault [of 0 edited_df df db] assms
    by (simp add: reconcile_def no_fault_def)
next
  case False
  then have "edited_df = df"
    using assms by auto
  with False show ?thesis
    by (auto simp: reconcile_def spec_update_calls_same)
qed


subsection \<open>The primary key\<close>

text \<open>
  The ids of a table stay distinct under every data-access function and both handlers;
  an update never changes an id.
\<close>

lemma save_distinct:
  "distinct (map id_col db) \<Longrightarrow>
   distinct (map id_col (snd (save_ticket_to_db fault now td db)))"
  by (cases fault) (auto simp: save_ticket_to_db_def)

lemma load_same: "snd (load_tickets_from_db fault db) = db"
  by (cases fault) (simp_all add: load_tickets_from_db_def)

lemma get_next_same: "snd (get_next_ticket_number fault db) = db"
  by (cases fault) (simp_all add: get_next_ticket_number_def split: option.split)

lemma submit_handler_distinct:
  assumes "distinct (map id_col db)"
  shows "distinct (map id_col
           (out_db (submit_handler fault_next fault_save fault_load today now issue' priority' df db)))"
  using assms save_distinct [OF assms, of fault_save now]
  by (simp add: submit_handler_def Let_def case_prod_beta get_next_same load_same
      split: sum.split)

lemma update_changed_rows_ids:
  "map id_col (snd (snd (update_changed_rows fault idx edited_df df db))) = map id_col db"
proof (induction edited_df arbitrary: idx db)
  case Nil
  then show ?case by simp
next
  case (Cons row rest)
  show ?case
    by (simp add: Let_def case_prod_beta Cons.IH update_ids split: sum.split)
qed

lemma reconcile_ids: "map id_col (out_db (reconcile fault edited_df df db)) = map id_col db"
  using update_changed_rows_ids [of fault 0 edited_df df db]
  by (simp add: reconcile_def case_prod_beta split: sum.split)

subsection \<open>Examples\<close>

lemma suffix_1001: "ticket_suffix example_1001 = 1001"
  by (simp add: ticket_suffix_def example_1001_def substr8_def cast_integer_def
      sqlite_isspace_def is_digit_def INT64_MAX_def)

section \<open>The claims\<close>

subsection \<open>Validation of the issue text\<close>

text \<open>
  \<^bold>\<open>C3\<close>. When the issue text is empty or consists of whitespace only (every code point
  of it is whitespace for \<^verbatim>\<open>str.strip\<close>), the submit handler shows the validation error
  and nothing else, makes no data-access call, and leaves the table and the snapshot as
  they were; whatever the engine would have done.
\<close>

theorem submit_handler_blank_issue:
  assumes "\<forall>c\<in>set issue'. py_isspace c"
  shows "submit_handler fault_next fault_save fault_load today now issue' priority' df db =
           \<lparr>out_ui = [Error_describe_issue], out_calls = [], out_df = df, out_db = db,
            out_ctl = Continue\<rparr>"
  using assms by (simp add: submit_handler_def strip_empty_iff)

theorem submit_handler_blank_issue_witness:
  "py_isspace 32 \<and> py_isspace 9 \<and> py_isspace 10 \<and> py_isspace 12288 \<and>
   submit_handler None None None (lit ''2024-05-03'') 300 [32, 9, 10, 12288] (lit ''High'')
     [select_columns example_1001] [example_1001] =
     \<lparr>out_ui = [Error_describe_issue], out_calls = [], out_df = [select_columns example_1001],
      out_db = [example_1001], out_ctl = Continue\<rparr> \<and>
   submit_handler None None None (lit ''2024-05-03'') 300 [] (lit ''High'') [] [] =
     \<lparr>out_ui = [Error_describe_issue], out_calls = [], out_df = [], out_db = [],
      out_ctl = Continue\<rparr>"
  using submit_handler_blank_issue [of "[32, 9, 10, 12288]" None None None "lit ''2024-05-03''" 300
      "lit ''High''" "[select_columns example_1001]" "[example_1001]"]
    submit_handler_blank_issue [of "[]" None None None "lit ''2024-05-03''" 300
      "lit ''High''" "[]" "[]"]
  by (simp add: py_isspace_def)

subsection \<open>Listing\<close>

text \<open>
  \<^bold>\<open>C4\<close>. \<^verbatim>\<open>load_tickets_from_db\<close> lists every row of the table, each exactly once (the
  rows listed are a permutation of the table's): the record listed for a row carries
  that row's id, issue, status, priority and date_submitted. Each listed row's creation
  timestamp is at least that of the row listed after it. The table is left as it was,
  also when the engine raises.
\<close>

theorem load_tickets_from_db_ordered:
  "(\<exists>rows. load_tickets_from_db None db =
             (Inr (map (\<lambda>r. \<lparr>ID = id_col r, Issue = issue r, Status = status r,
                                Priority = priority r, Date_Submitted = date_submitted r\<rparr>)
                     rows),
              db) \<and>
           mset rows = mset db \<and>
           sorted_wrt (\<lambda>a b. created_at b \<le> created_at a) rows) \<and>
   snd (load_tickets_from_db fault db) = db"
proof
  have "map select_columns rows =
          map (\<lambda>r. \<lparr>ID = id_col r, Issue = issue r, Status = status r,
                     Priority = priority r, Date_Submitted = date_submitted r\<rparr>) rows"
    for rows
    by (simp add: select_columns_def)
  then show "\<exists>rows. load_tickets_from_db None db =
             (Inr (map (\<lambda>r. \<lparr>ID = id_col r, Issue = issue r, Status = status r,
                                Priority = priority r, Date_Submitted = date_submitted r\<rparr>)
                     rows),
              db) \<and>
           mset rows = mset db \<and>
           sorted_wrt (\<lambda>a b. created_at b \<le> created_at a) rows"
    by (intro exI [of _ "order_by_created_at_desc db"])
       (simp add: load_tickets_from_db_def order_sorted order_mset)
  show "snd (load_tickets_from_db fault db) = db"
    by (cases fault) (simp_all add: load_tickets_from_db_def)
qed

theorem load_tickets_from_db_ordered_witness:
  "load_tickets_from_db None [example_1001, example_1002] =
     (Inr [\<lparr>ID = lit ''TICKET-1002'', Issue = lit ''no network'', Status = lit ''Open'',
            Priority = lit ''Low'', Date_Submitted = lit ''2024-05-02''\<rparr>,
           \<lparr>ID = lit ''TICKET-1001'', Issue = lit ''printer broken'', Status = lit ''Open'',
            Priority = lit ''Medium'', Date_Submitted = lit ''2024-05-01''\<rparr>],
      [example_1001, example_1002]) \<and>
   snd (load_tickets_from_db (Some OperationalError) [example_1001, example_1002]) =
     [example_1001, example_1002]"
  using load_tickets_from_db_ordered [of "[example_1001, example_1002]" "Some OperationalError"]
  by (simp add: load_tickets_from_db_def order_by_created_at_desc_def select_columns_def
      example_1001_def example_1002_def)

subsection \<open>Update Ticket\<close>

text \<open>
  \<^bold>\<open>C5\<close>. In a table whose ids are distinct (\<^verbatim>\<open>id\<close> is the primary key, and the
  handlers keep the ids distinct), for an id that is in the table and any new status
  and priority, \<^verbatim>\<open>update_ticket_in_db\<close> returns normally and changes the table at one
  position only, the row with that id: there status and priority are the new values,
  and id, issue, date_submitted and created_at are what they were. Every other row is
  unchanged.
\<close>

theorem update_ticket_in_db_frame:
  assumes "distinct (map id_col db)" and "ticket_id \<in> set (map id_col db)"
  shows "\<exists>i<length db. id_col (db ! i) = ticket_id \<and>
           update_ticket_in_db None ticket_id s p db =
             (Inr (), db[i := (db ! i)\<lparr>status := s, priority := p\<rparr>]) \<and>
           (let r = db ! i; r' = snd (update_ticket_in_db None ticket_id s p db) ! i
            in status r' = s \<and> priority r' = p \<and> id_col r' = id_col r \<and> issue r' = issue r \<and>
               date_submitted r' = date_submitted r \<and> created_at r' = created_at r) \<and>
           (\<forall>j<length db. j \<noteq> i \<longrightarrow>
              snd (update_ticket_in_db None ticket_id s p db) ! j = db ! j)"
proof -
  from assms(2) obtain i where i: "i < length db" "id_col (db ! i) = ticket_id"
    by (auto simp: in_set_conv_nth)
  have "update_ticket_in_db None ticket_id s p db =
          (Inr (), db[i := (db ! i)\<lparr>status := s, priority := p\<rparr>])"
    unfolding update_ticket_in_db_def
    using map_update_distinct [OF assms(1) i(1), of "\<lambda>r. r\<lparr>status := s, priority := p\<rparr>"] i(2)
    by simp
  with i show ?thesis
    by (auto simp: Let_def)
qed

theorem update_ticket_in_db_frame_witness:
  "distinct (map id_col [example_1001, example_1002]) \<and>
   lit ''TICKET-1002'' \<in> set (map id_col [example_1001, example_1002]) \<and>
   update_ticket_in_db None (lit ''TICKET-1002'') (lit ''Closed'') (lit ''High'')
     [example_1001, example_1002] =
     (Inr (), [example_1001,
               \<lparr>id_col = lit ''TICKET-1002'', issue = lit ''no network'', status = lit ''Closed'',
                priority = lit ''High'', date_submitted = lit ''2024-05-02'', created_at = 200\<rparr>])"
  using update_ticket_in_db_frame [of "[example_1001, example_1002]" "lit ''TICKET-1002''"
      "lit ''Closed''" "lit ''High''"]
  by (simp add: example_1001_def example_1002_def update_ticket_in_db_def)

text \<open>
  \<^bold>\<open>C7\<close>. A second \<^verbatim>\<open>update_ticket_in_db\<close> call with the arguments of the first returns
  what the first returned and leaves the table of the first; the table is that of the
  first call also when the engine raises for the second.
\<close>

theorem update_ticket_in_db_idempotent:
  "update_ticket_in_db None ticket_id s p (snd (update_ticket_in_db None ticket_id s p db)) =
     update_ticket_in_db None ticket_id s p db \<and>
   snd (update_ticket_in_db fault ticket_id s p (snd (update_ticket_in_db None ticket_id s p db))) =
     snd (update_ticket_in_db None ticket_id s p db)"
  by (cases fault) (simp_all add: update_ticket_in_db_def)

text \<open>
  \<^bold>\<open>C6\<close>. For an id that is not in the table, \<^verbatim>\<open>update_ticket_in_db\<close> returns normally
  and leaves the table as it was; the function shows nothing itself. The reconciliation
  that calls it shows no error either: when all its rows carry ids that are not in the
  table, it leaves the table as it was and shows what it shows after any other edit,
  its success message.
\<close>

theorem update_ticket_in_db_missing_id:
  "(ticket_id \<notin> set (map id_col db) \<longrightarrow>
      update_ticket_in_db None ticket_id s p db = (Inr (), db)) \<and>
   (length edited_df = length df \<and> (\<forall>row\<in>set edited_df. ID row \<notin> set (map id_col db)) \<longrightarrow>
      out_db (reconcile no_fault edited_df df db) = db \<and>
      out_ui (reconcile no_fault edited_df df db) =
        (if 0 < length df \<and> edited_df \<noteq> df then [Success_changes_saved] else []))"
proof (intro conjI impI)
  assume "ticket_id \<notin> set (map id_col db)"
  then show "update_ticket_in_db None ticket_id s p db = (Inr (), db)"
    by (rule update_absent)
next
  assume h: "length edited_df = length df \<and>
             (\<forall>row\<in>set edited_df. ID row \<notin> set (map id_col db))"
  then show "out_db (reconcile no_fault edited_df df db) = db"
    by (simp add: reconcile_no_fault db_after_calls_absent)
  from h show "out_ui (reconcile no_fault edited_df df db) =
        (if 0 < length df \<and> edited_df \<noteq> df then [Success_changes_saved] else [])"
    by (simp add: reconcile_no_fault)
qed

theorem update_ticket_in_db_missing_id_witness:
  "lit ''TICKET-1002'' \<notin> set (map id_col [example_1001]) \<and>
   update_ticket_in_db None (lit ''TICKET-1002'') (lit ''Closed'') (lit ''High'') [example_1001] =
     (Inr (), [example_1001]) \<and>
   length [(select_columns example_1002)\<lparr>Status := lit ''Closed''\<rparr>] =
     length [select_columns example_1002] \<and>
   ID ((select_columns example_1002)\<lparr>Status := lit ''Closed''\<rparr>) \<notin> set (map id_col [example_1001]) \<and>
   out_db (reconcile no_fault [(select_columns example_1002)\<lparr>Status := lit ''Closed''\<rparr>]
             [select_columns example_1002] [example_1001]) = [example_1001] \<and>
   out_ui (reconcile no_fault [(select_columns example_1002)\<lparr>Status := lit ''Closed''\<rparr>]
             [select_columns example_1002] [example_1001]) = [Success_changes_saved]"
proof -
  note inst = update_ticket_in_db_missing_id [of "lit ''TICKET-1002''" "[example_1001]"
      "lit ''Closed''" "lit ''High''" "[(select_columns example_1002)\<lparr>Status := lit ''Closed''\<rparr>]"
      "[select_columns example_1002]"]
  have h1: "lit ''TICKET-1002'' \<notin> set (map id_col [example_1001])"
    by (simp add: example_1001_def)
  have h2: "ID ((select_columns example_1002)\<lparr>Status := lit ''Closed''\<rparr>) \<notin>
              set (map id_col [example_1001])"
    by (simp add: example_1001_def example_1002_def select_columns_def)
  have ne: "[(select_columns example_1002)\<lparr>Status := lit ''Closed''\<rparr>] \<noteq>
            [select_columns example_1002]"
    by (simp add: example_1002_def select_columns_def)
  from inst [THEN conjunct1] h1
  have a: "update_ticket_in_db None (lit ''TICKET-1002'') (lit ''Closed'') (lit ''High'')
             [example_1001] = (Inr (), [example_1001])"
    by blast
  from inst [THEN conjunct2] h2 ne
  have b: "out_db (reconcile no_fault [(select_columns example_1002)\<lparr>Status := lit ''Closed''\<rparr>]
             [select_columns example_1002] [example_1001]) = [example_1001]"
    and c: "out_ui (reconcile no_fault [(select_columns example_1002)\<lparr>Status := lit ''Closed''\<rparr>]
             [select_columns example_1002] [example_1001]) = [Success_changes_saved]"
    by simp_all
  from h1 h2 a b c show ?thesis by simp
qed

subsection \<open>Ticket numbers and creation\<close>

text \<open>
  \<^bold>\<open>C1\<close>. On every table \<^verbatim>\<open>get_next_ticket_number\<close> returns 1001 when there is no row
  and otherwise one more than the largest suffix the engine's cast reads from the ids.
  When every such suffix is below 9223372036854775807, the largest value of the cast, a
  creation with a non-blank issue text succeeds, the number it assigns is greater than
  every suffix in the table, the new id's suffix is that number, and the next number
  is one more: successive creations get strictly increasing numbers, from 1001 on an
  empty table.
\<close>

theorem get_next_ticket_number_increasing:
  "get_next_ticket_number None db =
     (Inr (if db = [] then 1001 else Max (ticket_suffix ` set db) + 1), db) \<and>
   ((\<forall>r\<in>set db. ticket_suffix r < INT64_MAX) \<and> strip issue' \<noteq> [] \<longrightarrow>
      (\<exists>n r. get_next_ticket_number None db = (Inr n, db) \<and>
             (\<forall>r'\<in>set db. ticket_suffix r' < n) \<and>
             out_ctl (submit_handler None None None today now issue' priority' df db) = Rerun \<and>
             out_db (submit_handler None None None today now issue' priority' df db) = db @ [r] \<and>
             id_col r = lit ''TICKET-'' @ py_str n \<and>
             ticket_suffix r = n \<and>
             get_next_ticket_number None (db @ [r]) = (Inr (n + 1), db @ [r])))"
proof (intro conjI impI)
  show "get_next_ticket_number None db =
          (Inr (if db = [] then 1001 else Max (ticket_suffix ` set db) + 1), db)"
    by (rule get_next_ticket_number_None)
next
  assume h: "(\<forall>r\<in>set db. ticket_suffix r < INT64_MAX) \<and> strip issue' \<noteq> []"
  obtain n where n: "get_next_ticket_number None db = (Inr n, db)"
    by (simp add: get_next_ticket_number_None)
  define r where "r = \<lparr>id_col = lit ''TICKET-'' @ py_str n, issue = issue', status = lit ''Open'',
                        priority = priority', date_submitted = today, created_at = now\<rparr>"
  from h n have clamp: "max INT64_MIN (min INT64_MAX n) = n"
    and below: "\<forall>r'\<in>set db. ticket_suffix r' < n"
    and fresh: "lit ''TICKET-'' @ py_str n \<notin> set (map id_col db)"
    using next_number_fresh [of db n] by blast+
  have out: "out_ctl (submit_handler None None None today now issue' priority' df db) = Rerun"
            "out_db (submit_handler None None None today now issue' priority' df db) = db @ [r]"
    using submit_handler_fresh [OF _ n fresh, of issue' today now priority' df] h
    by (simp_all add: r_def)
  have suffix: "ticket_suffix r = n"
    unfolding r_def using ticket_suffix_new [of n] clamp by simp
  have "Max (ticket_suffix ` set (db @ [r])) = n"
  proof (rule Max_eqI)
    show "finite (ticket_suffix ` set (db @ [r]))" by simp
    show "n \<in> ticket_suffix ` set (db @ [r])" using suffix by force
    fix y assume "y \<in> ticket_suffix ` set (db @ [r])"
    with below suffix show "y \<le> n" by auto
  qed
  then have "get_next_ticket_number None (db @ [r]) = (Inr (n + 1), db @ [r])"
    by (simp add: get_next_ticket_number_None)
  with n below out suffix
  show "\<exists>n r. get_next_ticket_number None db = (Inr n, db) \<and>
             (\<forall>r'\<in>set db. ticket_suffix r' < n) \<and>
             out_ctl (submit_handler None None None today now issue' priority' df db) = Rerun \<and>
             out_db (submit_handler None None None today now issue' priority' df db) = db @ [r] \<and>
             id_col r = lit ''TICKET-'' @ py_str n \<and>
             ticket_suffix r = n \<and>
             get_next_ticket_number None (db @ [r]) = (Inr (n + 1), db @ [r])"
    by (intro exI [of _ n] exI [of _ r]) (simp add: r_def)
qed

theorem get_next_ticket_number_increasing_witness:
  "ticket_suffix example_1001 < INT64_MAX \<and> strip (lit ''printer broken'') \<noteq> [] \<and>
   get_next_ticket_number None [] = (Inr 1001, []) \<and>
   get_next_ticket_number None [example_1001] = (Inr 1002, [example_1001]) \<and>
   (\<exists>r. out_db (submit_handler None None None (lit ''2024-05-02'') 200 (lit ''printer broken'')
                 (lit ''Low'') [] [example_1001]) = [example_1001, r] \<and>
        id_col r = lit ''TICKET-1002'' \<and>
        get_next_ticket_number None [example_1001, r] = (Inr 1003, [example_1001, r]))"
proof -
  note inst = get_next_ticket_number_increasing [of "[example_1001]" "lit ''printer broken''"
      "lit ''2024-05-02''" 200 "lit ''Low''" "[]"]
  have h1: "ticket_suffix example_1001 < INT64_MAX"
    by (simp add: suffix_1001 INT64_MAX_def)
  have h2: "strip (lit ''printer broken'') \<noteq> []"
    by (simp add: strip_def py_isspace_def)
  have g0: "get_next_ticket_number None [] = (Inr 1001, [])"
    using get_next_ticket_number_increasing [of "[]", THEN conjunct1] by simp
  have g1: "get_next_ticket_number None [example_1001] = (Inr 1002, [example_1001])"
    using inst [THEN conjunct1] by (simp add: suffix_1001)
  from inst [THEN conjunct2] h1 h2 obtain n r where
    nr: "get_next_ticket_number None [example_1001] = (Inr n, [example_1001])"
      "out_db (submit_handler None None None (lit ''2024-05-02'') 200 (lit ''printer broken'')
                 (lit ''Low'') [] [example_1001]) = [example_1001] @ [r]"
      "id_col r = lit ''TICKET-'' @ py_str n"
      "get_next_ticket_number None ([example_1001] @ [r]) = (Inr (n + 1), [example_1001] @ [r])"
    by auto
  from nr(1) g1 have "n = 1002" by simp
  with nr have
    "out_db (submit_handler None None None (lit ''2024-05-02'') 200 (lit ''printer broken'')
                 (lit ''Low'') [] [example_1001]) = [example_1001, r] \<and>
     id_col r = lit ''TICKET-1002'' \<and>
     get_next_ticket_number None [example_1001, r] = (Inr 1003, [example_1001, r])"
    by (simp add: py_str_def digits_of.simps)
  then have "\<exists>r. out_db (submit_handler None None None (lit ''2024-05-02'') 200 (lit ''printer broken'')
                 (lit ''Low'') [] [example_1001]) = [example_1001, r] \<and>
        id_col r = lit ''TICKET-1002'' \<and>
        get_next_ticket_number None [example_1001, r] = (Inr 1003, [example_1001, r])"
    by (rule exI)
  with h1 h2 g0 g1 show ?thesis by (intro conjI)
qed

text \<open>
  Without the bound the numbers stop increasing. With \<^verbatim>\<open>TICKET-9223372036854775807\<close> in
  the table the next number is 9223372036854775808 and the creation succeeds; the cast
  of the new id's suffix is again 9223372036854775807, so the next number is
  9223372036854775808 once more, and the following creation is refused by the primary
  key.
\<close>

theorem get_next_ticket_number_repeats:
  "get_next_ticket_number None [example_max] = (Inr 9223372036854775808, [example_max]) \<and>
   out_db (submit_handler None None None (lit ''2024-05-03'') 300 (lit ''printer broken'')
             (lit ''High'') [] [example_max]) =
     [example_max,
      \<lparr>id_col = lit ''TICKET-9223372036854775808'', issue = lit ''printer broken'',
       status = lit ''Open'', priority = lit ''High'', date_submitted = lit ''2024-05-03'',
       created_at = 300\<rparr>] \<and>
   get_next_ticket_number None
     [example_max,
      \<lparr>id_col = lit ''TICKET-9223372036854775808'', issue = lit ''printer broken'',
       status = lit ''Open'', priority = lit ''High'', date_submitted = lit ''2024-05-03'',
       created_at = 300\<rparr>] =
     (Inr 9223372036854775808,
      [example_max,
       \<lparr>id_col = lit ''TICKET-9223372036854775808'', issue = lit ''printer broken'',
        status = lit ''Open'', priority = lit ''High'', date_submitted = lit ''2024-05-03'',
        created_at = 300\<rparr>]) \<and>
   out_ui (submit_handler None None None (lit ''2024-05-04'') 400 (lit ''no network'')
             (lit ''Low'') []
             [example_max,
              \<lparr>id_col = lit ''TICKET-9223372036854775808'', issue = lit ''printer broken'',
               status = lit ''Open'', priority = lit ''High'', date_submitted = lit ''2024-05-03'',
               created_at = 300\<rparr>]) =
     [Error_saving IntegrityError]"
proof -
  have s: "ticket_suffix example_max = 9223372036854775807"
    by (simp add: ticket_suffix_def example_max_def substr8_def cast_integer_def
        sqlite_isspace_def is_digit_def INT64_MAX_def)
  have p: "py_str 9223372036854775808 = lit ''9223372036854775808''"
    by (simp add: py_str_def digits_of.simps)
  have s': "ticket_suffix \<lparr>id_col = lit ''TICKET-9223372036854775808'', issue = lit ''printer broken'',
       status = lit ''Open'', priority = lit ''High'', date_submitted = lit ''2024-05-03'',
       created_at = 300\<rparr> = 9223372036854775807"
    by (simp add: ticket_suffix_def substr8_def cast_integer_def
        sqlite_isspace_def is_digit_def INT64_MAX_def)
  have g: "get_next_ticket_number None [example_max] = (Inr 9223372036854775808, [example_max])"
    using s by (simp add: get_next_ticket_number_def)
  have g': "get_next_ticket_number None
     [example_max,
      \<lparr>id_col = lit ''TICKET-9223372036854775808'', issue = lit ''printer broken'',
       status = lit ''Open'', priority = lit ''High'', date_submitted = lit ''2024-05-03'',
       created_at = 300\<rparr>] =
     (Inr 9223372036854775808,
      [example_max,
       \<lparr>id_col = lit ''TICKET-9223372036854775808'', issue = lit ''printer broken'',
        status = lit ''Open'', priority = lit ''High'', date_submitted = lit ''2024-05-03'',
        created_at = 300\<rparr>])"
    using s s' by (simp add: get_next_ticket_number_def)
  have i: "id_col example_max = lit ''TICKET-9223372036854775807''"
    by (simp add: example_max_def)
  show ?thesis
    using p i g g'
    by (simp add: submit_handler_def strip_def py_isspace_def save_ticket_to_db_def
        load_tickets_from_db_def Let_def)
qed

text \<open>
  \<^bold>\<open>C2\<close>. For a non-blank issue text and any priority, a creation that shows its success
  message has appended exactly one row to the table: its id is \<^verbatim>\<open>TICKET-\<close> followed by
  the number \<^verbatim>\<open>get_next_ticket_number\<close> returns for the table, its issue and priority are
  the submitted ones, its status is \<^verbatim>\<open>Open\<close>, its date is today's; and the record is
  shown. On an empty table the ticket "printer broken" of priority Medium gets the id
  \<^verbatim>\<open>TICKET-1001\<close> and the status \<^verbatim>\<open>Open\<close>, and the ticket created after it the id
  \<^verbatim>\<open>TICKET-1002\<close>.
\<close>

theorem submit_handler_creates:
  assumes "strip issue' \<noteq> []"
  shows "(Success_ticket_saved \<in>
            set (out_ui (submit_handler fault_next fault_save fault_load today now issue' priority' df db)) \<longrightarrow>
          (\<exists>n. get_next_ticket_number None db = (Inr n, db) \<and>
             out_db (submit_handler fault_next fault_save fault_load today now issue' priority' df db) =
               db @ [\<lparr>id_col = lit ''TICKET-'' @ py_str n, issue = issue', status = lit ''Open'',
                      priority = priority', date_submitted = today, created_at = now\<rparr>] \<and>
             Show_dataframe [\<lparr>ID = lit ''TICKET-'' @ py_str n, Issue = issue',
                               Status = lit ''Open'', Priority = priority',
                               Date_Submitted = today\<rparr>]
               \<in> set (out_ui (submit_handler fault_next fault_save fault_load today now issue' priority' df db)))) \<and>
         (let first = submit_handler None None None today0 now0 (lit ''printer broken'')
                        (lit ''Medium'') [] [];
              second = submit_handler None None None today now issue' priority'
                         (out_df first) (out_db first)
          in out_ctl first = Rerun \<and>
             out_db first =
               [\<lparr>id_col = lit ''TICKET-1001'', issue = lit ''printer broken'',
                 status = lit ''Open'', priority = lit ''Medium'', date_submitted = today0,
                 created_at = now0\<rparr>] \<and>
             out_ctl second = Rerun \<and>
             out_db second =
               [\<lparr>id_col = lit ''TICKET-1001'', issue = lit ''printer broken'',
                 status = lit ''Open'', priority = lit ''Medium'', date_submitted = today0,
                 created_at = now0\<rparr>,
                \<lparr>id_col = lit ''TICKET-1002'', issue = issue', status = lit ''Open'',
                 priority = priority', date_submitted = today, created_at = now\<rparr>])"
proof (intro conjI impI)
  assume "Success_ticket_saved \<in>
            set (out_ui (submit_handler fault_next fault_save fault_load today now issue' priority' df db))"
  with assms show "\<exists>n. get_next_ticket_number None db = (Inr n, db) \<and>
             out_db (submit_handler fault_next fault_save fault_load today now issue' priority' df db) =
               db @ [\<lparr>id_col = lit ''TICKET-'' @ py_str n, issue = issue', status = lit ''Open'',
                      priority = priority', date_submitted = today, created_at = now\<rparr>] \<and>
             Show_dataframe [\<lparr>ID = lit ''TICKET-'' @ py_str n, Issue = issue',
                               Status = lit ''Open'', Priority = priority',
                               Date_Submitted = today\<rparr>]
               \<in> set (out_ui (submit_handler fault_next fault_save fault_load today now issue' priority' df db))"
    by (rule submit_handler_saved)
next
  define r1 where "r1 = \<lparr>id_col = lit ''TICKET-1001'', issue = lit ''printer broken'',
                 status = lit ''Open'', priority = lit ''Medium'', date_submitted = today0,
                 created_at = now0\<rparr>"
  have p1: "py_str 1001 = lit ''1001''" and p2: "py_str 1002 = lit ''1002''"
    by (simp_all add: py_str_def digits_of.simps)
  have s0: "strip (lit ''printer broken'') \<noteq> []"
    by (simp add: strip_def py_isspace_def)
  have g0: "get_next_ticket_number None [] = (Inr 1001, [])"
    by (simp add: get_next_ticket_number_def)
  have first: "submit_handler None None None today0 now0 (lit ''printer broken'') (lit ''Medium'') [] [] =
      \<lparr>out_ui = [Success_ticket_saved,
                 Show_dataframe [\<lparr>ID = lit ''TICKET-1001'', Issue = lit ''printer broken'',
                                  Status = lit ''Open'', Priority = lit ''Medium'',
                                  Date_Submitted = today0\<rparr>]],
       out_calls = [Call_get_next_ticket_number,
                    Call_save_ticket_to_db \<lparr>ID = lit ''TICKET-1001'', Issue = lit ''printer broken'',
                                  Status = lit ''Open'', Priority = lit ''Medium'',
                                  Date_Submitted = today0\<rparr>,
                    Call_load_tickets_from_db],
       out_df = map select_columns (order_by_created_at_desc [r1]),
       out_db = [r1], out_ctl = Rerun\<rparr>"
    using submit_handler_fresh [OF s0 g0, of today0 now0 "lit ''Medium''" "[]"] p1
    by (simp add: r1_def)
  have "ticket_suffix r1 = 1001"
    by (simp add: r1_def ticket_suffix_def substr8_def cast_integer_def sqlite_isspace_def
        is_digit_def INT64_MAX_def)
  then have g1: "get_next_ticket_number None [r1] = (Inr 1002, [r1])"
    by (simp add: get_next_ticket_number_def)
  have fresh: "lit ''TICKET-'' @ py_str 1002 \<notin> set (map id_col [r1])"
    using p2 by (simp add: r1_def)
  have second: "out_ctl (submit_handler None None None today now issue' priority'
                  (map select_columns (order_by_created_at_desc [r1])) [r1]) = Rerun \<and>
     out_db (submit_handler None None None today now issue' priority'
                  (map select_columns (order_by_created_at_desc [r1])) [r1]) =
       [r1, \<lparr>id_col = lit ''TICKET-1002'', issue = issue', status = lit ''Open'',
                 priority = priority', date_submitted = today, created_at = now\<rparr>]"
    using submit_handler_fresh [OF assms g1 fresh, of today now priority'
        "map select_columns (order_by_created_at_desc [r1])"] p2
    by simp
  show "let first = submit_handler None None None today0 now0 (lit ''printer broken'')
                        (lit ''Medium'') [] [];
              second = submit_handler None None None today now issue' priority'
                         (out_df first) (out_db first)
          in out_ctl first = Rerun \<and>
             out_db first =
               [\<lparr>id_col = lit ''TICKET-1001'', issue = lit ''printer broken'',
                 status = lit ''Open'', priority = lit ''Medium'', date_submitted = today0,
                 created_at = now0\<rparr>] \<and>
             out_ctl second = Rerun \<and>
             out_db second =
               [\<lparr>id_col = lit ''TICKET-1001'', issue = lit ''printer broken'',
                 status = lit ''Open'', priority = lit ''Medium'', date_submitted = today0,
                 created_at = now0\<rparr>,
                \<lparr>id_col = lit ''TICKET-1002'', issue = issue', status = lit ''Open'',
                 priority = priority', date_submitted = today, created_at = now\<rparr>]"
    unfolding Let_def first using second by (simp add: r1_def)
qed

theorem submit_handler_creates_witness:
  "strip (lit ''no network'') \<noteq> [] \<and>
   Success_ticket_saved \<in>
     set (out_ui (submit_handler None None None (lit ''2024-05-02'') 200 (lit ''no network'')
                    (lit ''Low'') [select_columns example_1001] [example_1001])) \<and>
   out_db (submit_handler None None None (lit ''2024-05-02'') 200 (lit ''no network'')
             (lit ''Low'') [select_columns example_1001] [example_1001]) =
     [example_1001, example_1002] \<and>
   Show_dataframe [select_columns example_1002] \<in>
     set (out_ui (submit_handler None None None (lit ''2024-05-02'') 200 (lit ''no network'')
                    (lit ''Low'') [select_columns example_1001] [example_1001]))"
proof -
  note inst = submit_handler_creates [of "lit ''no network''" None None None "lit ''2024-05-02''" 200
      "lit ''Low''" "[select_columns example_1001]" "[example_1001]"]
  have h1: "strip (lit ''no network'') \<noteq> []"
    by (simp add: strip_def py_isspace_def)
  have s: "ticket_suffix example_1001 = 1001"
    by (simp add: ticket_suffix_def example_1001_def substr8_def cast_integer_def
        sqlite_isspace_def is_digit_def INT64_MAX_def)
  have g: "get_next_ticket_number None [example_1001] = (Inr 1002, [example_1001])"
    using s by (simp add: get_next_ticket_number_def)
  have p: "py_str 1002 = lit ''1002''"
    by (simp add: py_str_def digits_of.simps)
  have h2: "Success_ticket_saved \<in>
     set (out_ui (submit_handler None None None (lit ''2024-05-02'') 200 (lit ''no network'')
                    (lit ''Low'') [select_columns example_1001] [example_1001]))"
    using h1 g p
    by (simp add: submit_handler_def save_ticket_to_db_def load_tickets_from_db_def Let_def
        example_1001_def)
  from inst [OF h1, THEN conjunct1] h2 obtain n where
    n: "get_next_ticket_number None [example_1001] = (Inr n, [example_1001])"
      "out_db (submit_handler None None None (lit ''2024-05-02'') 200 (lit ''no network'')
             (lit ''Low'') [select_columns example_1001] [example_1001]) =
         [example_1001] @ [\<lparr>id_col = lit ''TICKET-'' @ py_str n, issue = lit ''no network'',
            status = lit ''Open'', priority = lit ''Low'', date_submitted = lit ''2024-05-02'',
            created_at = 200\<rparr>]"
      "Show_dataframe [\<lparr>ID = lit ''TICKET-'' @ py_str n, Issue = lit ''no network'',
                               Status = lit ''Open'', Priority = lit ''Low'',
                               Date_Submitted = lit ''2024-05-02''\<rparr>]
               \<in> set (out_ui (submit_handler None None None (lit ''2024-05-02'') 200 (lit ''no network'')
                    (lit ''Low'') [select_columns example_1001] [example_1001]))"
    by blast
  from n(1) g have "n = 1002" by simp
  with n(2,3) p have
    "out_db (submit_handler None None None (lit ''2024-05-02'') 200 (lit ''no network'')
             (lit ''Low'') [select_columns example_1001] [example_1001]) =
       [example_1001, example_1002]"
    "Show_dataframe [select_columns example_1002] \<in>
       set (out_ui (submit_handler None None None (lit ''2024-05-02'') 200 (lit ''no network'')
                    (lit ''Low'') [select_columns example_1001] [example_1001]))"
    by (simp_all add: example_1002_def select_columns_def)
  with h1 h2 show ?thesis by (intro conjI)
qed

text \<open>
  \<^bold>\<open>C10\<close>. For a non-blank issue text, a creation that shows its success message has
  appended one row whose issue is the submitted text itself, not the stripped one.
\<close>

theorem submit_handler_stores_issue_verbatim:
  assumes "strip issue' \<noteq> []"
    and "Success_ticket_saved \<in>
           set (out_ui (submit_handler fault_next fault_save fault_load today now issue' priority' df db))"
  shows "\<exists>r. out_db (submit_handler fault_next fault_save fault_load today now issue' priority' df db) =
               db @ [r] \<and> issue r = issue'"
  using submit_handler_saved [OF assms] by auto

theorem submit_handler_stores_issue_verbatim_witness:
  "strip (lit ''  printer broken  '') = lit ''printer broken'' \<and>
   strip (lit ''  printer broken  '') \<noteq> [] \<and>
   Success_ticket_saved \<in>
     set (out_ui (submit_handler None None None (lit ''2024-05-01'') 100 (lit ''  printer broken  '')
                    (lit ''Medium'') [] [])) \<and>
   map issue (out_db (submit_handler None None None (lit ''2024-05-01'') 100
                        (lit ''  printer broken  '') (lit ''Medium'') [] [])) =
     [lit ''  printer broken  '']"
proof -
  have h0: "strip (lit ''  printer broken  '') = lit ''printer broken''"
    by (simp add: strip_def py_isspace_def)
  then have h1: "strip (lit ''  printer broken  '') \<noteq> []"
    by simp
  have h2: "Success_ticket_saved \<in>
     set (out_ui (submit_handler None None None (lit ''2024-05-01'') 100 (lit ''  printer broken  '')
                    (lit ''Medium'') [] []))"
    using h1
    by (simp add: submit_handler_def get_next_ticket_number_def save_ticket_to_db_def
        load_tickets_from_db_def Let_def)
  from submit_handler_stores_issue_verbatim [OF h1 h2]
  have "map issue (out_db (submit_handler None None None (lit ''2024-05-01'') 100
                        (lit ''  printer broken  '') (lit ''Medium'') [] [])) =
     [lit ''  printer broken  '']"
    by auto
  with h0 h1 h2 show ?thesis by (intro conjI)
qed


subsection \<open>Reconciliation\<close>




subsection \<open>Storage failures\<close>

text \<open>
  \<^bold>\<open>C8\<close>. A failure raised inside one of the two \<^verbatim>\<open>try\<close> blocks is caught and shown, and
  the failing call writes nothing. When the insert of a creation raises (the engine
  fails or the primary key refuses the id), the handler shows the saving error and the
  table and the snapshot are what they were. When the reload after the insert raises,
  the saving error is shown after the success message and the table is the one the
  insert left. When the update of row \<open>k\<close> is the first call of a reconciliation to
  raise, the updating error is shown, the snapshot is kept, no call is made for a later
  row, and the table is the one the calls for the rows before \<open>k\<close> left.
\<close>

theorem storage_failure_caught:
  "(let td = \<lparr>ID = lit ''TICKET-'' @ py_str n, Issue = issue', Status = lit ''Open'',
              Priority = priority', Date_Submitted = today\<rparr>
    in (strip issue' \<noteq> [] \<and> get_next_ticket_number None db = (Inr n, db) \<and>
        fst (save_ticket_to_db fault_save now td db) = Inl e \<longrightarrow>
          submit_handler None fault_save fault_load today now issue' priority' df db =
            \<lparr>out_ui = [Error_saving e],
             out_calls = [Call_get_next_ticket_number, Call_save_ticket_to_db td],
             out_df = df, out_db = db, out_ctl = Continue\<rparr>) \<and>
       (strip issue' \<noteq> [] \<and> get_next_ticket_number None db = (Inr n, db) \<and>
        save_ticket_to_db None now td db = (Inr (), db2) \<longrightarrow>
          submit_handler None None (Some e) today now issue' priority' df db =
            \<lparr>out_ui = [Success_ticket_saved, Show_dataframe [td], Error_saving e],
             out_calls = [Call_get_next_ticket_number, Call_save_ticket_to_db td,
                          Call_load_tickets_from_db],
             out_df = df, out_db = db2, out_ctl = Continue\<rparr>)) \<and>
   (length edited_df = length df \<and> k < length df \<and> fault k = Some e \<and>
    (\<forall>j<k. fault j = None) \<and>
    (Status (edited_df ! k) \<noteq> Status (df ! k) \<or> Priority (edited_df ! k) \<noteq> Priority (df ! k)) \<longrightarrow>
      reconcile fault edited_df df db =
        \<lparr>out_ui = [Error_updating e],
         out_calls = spec_update_calls (take (Suc k) edited_df) df,
         out_df = df,
         out_db = db_after_calls (spec_update_calls (take k edited_df) df) db,
         out_ctl = Continue\<rparr>)"
proof -
  define td where "td = \<lparr>ID = lit ''TICKET-'' @ py_str n, Issue = issue', Status = lit ''Open'',
              Priority = priority', Date_Submitted = today\<rparr>"
  have a: "submit_handler None fault_save fault_load today now issue' priority' df db =
            \<lparr>out_ui = [Error_saving e],
             out_calls = [Call_get_next_ticket_number, Call_save_ticket_to_db td],
             out_df = df, out_db = db, out_ctl = Continue\<rparr>"
    if "strip issue' \<noteq> [] \<and> get_next_ticket_number None db = (Inr n, db) \<and>
        fst (save_ticket_to_db fault_save now td db) = Inl e"
  proof -
    from that have "save_ticket_to_db fault_save now td db = (Inl e, db)"
      by (cases fault_save) (auto simp: save_ticket_to_db_def split: if_splits)
    with that show ?thesis
      by (simp add: submit_handler_def Let_def td_def)
  qed
  have c: "submit_handler None None (Some e) today now issue' priority' df db =
            \<lparr>out_ui = [Success_ticket_saved, Show_dataframe [td], Error_saving e],
             out_calls = [Call_get_next_ticket_number, Call_save_ticket_to_db td,
                          Call_load_tickets_from_db],
             out_df = df, out_db = db2, out_ctl = Continue\<rparr>"
    if "strip issue' \<noteq> [] \<and> get_next_ticket_number None db = (Inr n, db) \<and>
        save_ticket_to_db None now td db = (Inr (), db2)"
    using that by (simp add: submit_handler_def Let_def td_def load_tickets_from_db_def)
  have d: "reconcile fault edited_df df db =
        \<lparr>out_ui = [Error_updating e],
         out_calls = spec_update_calls (take (Suc k) edited_df) df,
         out_df = df,
         out_db = db_after_calls (spec_update_calls (take k edited_df) df) db,
         out_ctl = Continue\<rparr>"
    if h: "length edited_df = length df \<and> k < length df \<and> fault k = Some e \<and>
        (\<forall>j<k. fault j = None) \<and>
        (Status (edited_df ! k) \<noteq> Status (df ! k) \<or> Priority (edited_df ! k) \<noteq> Priority (df ! k))"
  proof -
    from h have "edited_df ! k \<noteq> df ! k" by auto
    then have ne: "edited_df \<noteq> df" by auto
    have "update_changed_rows fault 0 edited_df df db =
           (Inl e, spec_update_calls (take (Suc k) edited_df) (drop 0 df),
            db_after_calls (spec_update_calls (take k edited_df) (drop 0 df)) db)"
      using h by (intro update_changed_rows_fault) simp_all
    moreover from h have "0 < length df" by auto
    ultimately show ?thesis
      using ne by (simp add: reconcile_def)
  qed
  from a c d show ?thesis
    unfolding Let_def td_def by blast
qed


theorem storage_failure_caught_witness:
  "strip (lit ''no network'') \<noteq> [] \<and>
   get_next_ticket_number None [example_1001] = (Inr 1002, [example_1001]) \<and>
   fst (save_ticket_to_db (Some OperationalError) 200
          \<lparr>ID = lit ''TICKET-1002'', Issue = lit ''no network'', Status = lit ''Open'',
           Priority = lit ''Low'', Date_Submitted = lit ''2024-05-02''\<rparr> [example_1001]) =
     Inl OperationalError \<and>
   submit_handler None (Some OperationalError) None (lit ''2024-05-02'') 200 (lit ''no network'')
     (lit ''Low'') [select_columns example_1001] [example_1001] =
     \<lparr>out_ui = [Error_saving OperationalError],
      out_calls = [Call_get_next_ticket_number,
                   Call_save_ticket_to_db
                     \<lparr>ID = lit ''TICKET-1002'', Issue = lit ''no network'', Status = lit ''Open'',
                      Priority = lit ''Low'', Date_Submitted = lit ''2024-05-02''\<rparr>],
      out_df = [select_columns example_1001], out_db = [example_1001], out_ctl = Continue\<rparr> \<and>
   save_ticket_to_db None 200
     \<lparr>ID = lit ''TICKET-1002'', Issue = lit ''no network'', Status = lit ''Open'',
      Priority = lit ''Low'', Date_Submitted = lit ''2024-05-02''\<rparr> [example_1001] =
     (Inr (), [example_1001, example_1002]) \<and>
   submit_handler None None (Some OperationalError) (lit ''2024-05-02'') 200 (lit ''no network'')
     (lit ''Low'') [select_columns example_1001] [example_1001] =
     \<lparr>out_ui = [Success_ticket_saved, Show_dataframe [select_columns example_1002],
                Error_saving OperationalError],
      out_calls = [Call_get_next_ticket_number,
                   Call_save_ticket_to_db (select_columns example_1002),
                   Call_load_tickets_from_db],
      out_df = [select_columns example_1001], out_db = [example_1001, example_1002],
      out_ctl = Continue\<rparr> \<and>
   reconcile (fault_at 1 OperationalError)
     [(select_columns example_1002)\<lparr>Status := lit ''Closed''\<rparr>,
      (select_columns example_1001)\<lparr>Priority := lit ''High''\<rparr>]
     [select_columns example_1002, select_columns example_1001]
     [example_1001, example_1002] =
     \<lparr>out_ui = [Error_updating OperationalError],
      out_calls = [Call_update_ticket_in_db (lit ''TICKET-1002'') (lit ''Closed'') (lit ''Low''),
                   Call_update_ticket_in_db (lit ''TICKET-1001'') (lit ''Open'') (lit ''High'')],
      out_df = [select_columns example_1002, select_columns example_1001],
      out_db = [example_1001, example_1002\<lparr>status := lit ''Closed''\<rparr>],
      out_ctl = Continue\<rparr>"
proof -
  let ?td = "\<lparr>ID = lit ''TICKET-1002'', Issue = lit ''no network'', Status = lit ''Open'',
              Priority = lit ''Low'', Date_Submitted = lit ''2024-05-02''\<rparr>"
  let ?edited = "[(select_columns example_1002)\<lparr>Status := lit ''Closed''\<rparr>,
                  (select_columns example_1001)\<lparr>Priority := lit ''High''\<rparr>]"
  let ?df = "[select_columns example_1002, select_columns example_1001]"
  let ?fault = "fault_at 1 OperationalError"
  have p: "py_str 1002 = lit ''1002''"
    by (simp add: py_str_def digits_of.simps)
  have h1: "strip (lit ''no network'') \<noteq> []"
    by (simp add: strip_def py_isspace_def)
  have h2: "get_next_ticket_number None [example_1001] = (Inr 1002, [example_1001])"
    using suffix_1001 by (simp add: get_next_ticket_number_def)
  have h3: "fst (save_ticket_to_db (Some OperationalError) 200 ?td [example_1001]) =
              Inl OperationalError"
    by (simp add: save_ticket_to_db_def)
  have h4: "save_ticket_to_db None 200 ?td [example_1001] = (Inr (), [example_1001, example_1002])"
    by (simp add: save_ticket_to_db_def example_1001_def example_1002_def)
  have td: "?td = select_columns example_1002"
    by (simp add: select_columns_def example_1002_def)
  have h5: "length ?edited = length ?df \<and> 1 < length ?df \<and> ?fault 1 = Some OperationalError \<and>
            (\<forall>j<1. ?fault j = None) \<and>
            (Status (?edited ! 1) \<noteq> Status (?df ! 1) \<or> Priority (?edited ! 1) \<noteq> Priority (?df ! 1))"
    by (simp add: select_columns_def example_1001_def fault_at_def)
  note a1 = storage_failure_caught [where n = 1002 and issue' = "lit ''no network''"
      and priority' = "lit ''Low''" and today = "lit ''2024-05-02''" and db = "[example_1001]"
      and now = 200 and e = OperationalError and df = "[select_columns example_1001]"
      and fault_save = "Some OperationalError" and fault_load = None, THEN conjunct1]
  note a2 = storage_failure_caught [where n = 1002 and issue' = "lit ''no network''"
      and priority' = "lit ''Low''" and today = "lit ''2024-05-02''" and db = "[example_1001]"
      and now = 200 and e = OperationalError and df = "[select_columns example_1001]"
      and ?db2.0 = "[example_1001, example_1002]", THEN conjunct1]
  note d = storage_failure_caught [where db = "[example_1001, example_1002]"
      and e = OperationalError and edited_df = ?edited and df = ?df and k = 1 and fault = ?fault,
      THEN conjunct2]
  have r1: "submit_handler None (Some OperationalError) None (lit ''2024-05-02'') 200
              (lit ''no network'') (lit ''Low'') [select_columns example_1001] [example_1001] =
     \<lparr>out_ui = [Error_saving OperationalError],
      out_calls = [Call_get_next_ticket_number, Call_save_ticket_to_db ?td],
      out_df = [select_columns example_1001], out_db = [example_1001], out_ctl = Continue\<rparr>"
    using a1 h1 h2 h3 p by (simp add: Let_def)
  have r2: "submit_handler None None (Some OperationalError) (lit ''2024-05-02'') 200
              (lit ''no network'') (lit ''Low'') [select_columns example_1001] [example_1001] =
     \<lparr>out_ui = [Success_ticket_saved, Show_dataframe [select_columns example_1002],
                Error_saving OperationalError],
      out_calls = [Call_get_next_ticket_number,
                   Call_save_ticket_to_db (select_columns example_1002),
                   Call_load_tickets_from_db],
      out_df = [select_columns example_1001], out_db = [example_1001, example_1002],
      out_ctl = Continue\<rparr>"
    using a2 h1 h2 h4 p td by (simp add: Let_def)
  have r3: "reconcile ?fault ?edited ?df [example_1001, example_1002] =
     \<lparr>out_ui = [Error_updating OperationalError],
      out_calls = [Call_update_ticket_in_db (lit ''TICKET-1002'') (lit ''Closed'') (lit ''Low''),
                   Call_update_ticket_in_db (lit ''TICKET-1001'') (lit ''Open'') (lit ''High'')],
      out_df = ?df,
      out_db = [example_1001, example_1002\<lparr>status := lit ''Closed''\<rparr>],
      out_ctl = Continue\<rparr>"
    using d h5
    by (simp add: spec_update_calls_def select_columns_def example_1001_def example_1002_def
        update_ticket_in_db_def)
  from h1 h2 h3 h4 r1 r2 r3 show ?thesis by (intro conjI)
qed


text \<open>
  The claim as stated does not hold for every failure of a creation or for the
  reconciliation as a whole. The query for the next ticket number stands before the
  \<^verbatim>\<open>try\<close>: when it raises, the exception leaves the handler uncaught and no message is
  shown. And when the second of two updates raises, the first stays written: the table
  after the failure is not the table before the reconciliation.
\<close>

theorem storage_failure_not_contained:
  "submit_handler (Some OperationalError) None None (lit ''2024-05-02'') 200 (lit ''no network'')
     (lit ''Low'') [select_columns example_1001] [example_1001] =
     \<lparr>out_ui = [], out_calls = [Call_get_next_ticket_number],
      out_df = [select_columns example_1001], out_db = [example_1001],
      out_ctl = Uncaught OperationalError\<rparr> \<and>
   out_ui (reconcile (fault_at 1 OperationalError)
     [(select_columns example_1002)\<lparr>Status := lit ''Closed''\<rparr>,
      (select_columns example_1001)\<lparr>Priority := lit ''High''\<rparr>]
     [select_columns example_1002, select_columns example_1001]
     [example_1001, example_1002]) = [Error_updating OperationalError] \<and>
   out_db (reconcile (fault_at 1 OperationalError)
     [(select_columns example_1002)\<lparr>Status := lit ''Closed''\<rparr>,
      (select_columns example_1001)\<lparr>Priority := lit ''High''\<rparr>]
     [select_columns example_1002, select_columns example_1001]
     [example_1001, example_1002]) = [example_1001, example_1002\<lparr>status := lit ''Closed''\<rparr>] \<and>
   [example_1001, example_1002\<lparr>status := lit ''Closed''\<rparr>] \<noteq> [example_1001, example_1002]"
  by (simp add: submit_handler_def strip_def py_isspace_def get_next_ticket_number_def
      reconcile_def update_ticket_in_db_def select_columns_def example_1001_def example_1002_def
      fault_at_def Let_def)

end
